theory Spec2Isabelle
  imports Complex_Main
begin

section \<open>usePointerSwipe: data model\<close>

text \<open>
  The embedding follows \<^verbatim>\<open>src/src/useSwipePointer/usePointerSwipe.ts\<close>.
  A JavaScript \<^verbatim>\<open>number\<close> is modelled as a \<^typ>\<open>real\<close>: pointer coordinates are
  finite (the DOM declares them \<^verbatim>\<open>double\<close>, which excludes NaN and the infinities),
  and the code only subtracts and compares them. Rounding of the subtraction is not
  modelled.
\<close>

text \<open>\<^verbatim>\<open>interface Position { x: number; y: number }\<close>. The fields are called
  \<open>posX\<close> and \<open>posY\<close> here, so that \<open>x\<close> and \<open>y\<close> stay free for variables.\<close>

record Position =
  posX :: real
  posY :: real

text \<open>\<^verbatim>\<open>type UseSwipeDirection = 'down' | 'left' | 'none' | 'right' | 'up'\<close>\<close>

datatype UseSwipeDirection = down | left | none | right | up

text \<open>The fields of a \<^verbatim>\<open>PointerEvent\<close> that the code reads. \<open>pointerType\<close> is
  any string (the code casts it to \<^verbatim>\<open>PointerType\<close> without a check);
  \<open>target\<close> is the element the event was dispatched to, if any.\<close>

type_synonym Element = nat

record PointerEvent =
  buttons :: nat
  pointerType :: string
  pointerId :: int
  clientX :: real
  clientY :: real
  target :: "Element option"

text \<open>\<^verbatim>\<open>UsePointerSwipeOptions\<close>. An optional value is an \<open>option\<close>; an optional
  callback is the flag saying whether the caller supplied it (what the callback does is
  the caller's business; the model records that it was called, and with what).\<close>

record UsePointerSwipeOptions =
  disableTextSelect :: "bool option"
  onSwipe :: bool
  onSwipeEnd :: bool
  onSwipeStart :: bool
  pointerTypes :: "string list option"
  threshold :: "real option"

text \<open>What a handler does to the world outside the tracker, in the order it does it.\<close>

datatype Effect =
    SetPointerCapture Element int
  | OnSwipeStart PointerEvent
  | OnSwipe PointerEvent
  | OnSwipeEnd PointerEvent UseSwipeDirection

text \<open>The reactive cells of one tracker: \<^verbatim>\<open>posStart\<close>, \<^verbatim>\<open>posEnd\<close>,
  \<^verbatim>\<open>isSwiping\<close>, \<^verbatim>\<open>isPointerDown\<close>.\<close>

record Tracker =
  posStart :: Position
  posEnd :: Position
  isSwiping :: bool
  isPointerDown :: bool

section \<open>Position ledger and geometry\<close>

text \<open>\<^verbatim>\<open>const { threshold = 50 } = options\<close>\<close>

definition thresholdOf :: "UsePointerSwipeOptions \<Rightarrow> real" where
  "thresholdOf options = (case threshold options of None \<Rightarrow> 50 | Some t \<Rightarrow> t)"

definition updatePosStart :: "real \<Rightarrow> real \<Rightarrow> Tracker \<Rightarrow> Tracker" where
  "updatePosStart x y s = s\<lparr>posStart := \<lparr>posX = x, posY = y\<rparr>\<rparr>"

definition updatePosEnd :: "real \<Rightarrow> real \<Rightarrow> Tracker \<Rightarrow> Tracker" where
  "updatePosEnd x y s = s\<lparr>posEnd := \<lparr>posX = x, posY = y\<rparr>\<rparr>"

definition distanceX :: "Tracker \<Rightarrow> real" where
  "distanceX s = posX (posStart s) - posX (posEnd s)"

definition distanceY :: "Tracker \<Rightarrow> real" where
  "distanceY s = posY (posStart s) - posY (posEnd s)"

definition isThresholdExceeded :: "real \<Rightarrow> Tracker \<Rightarrow> bool" where
  "isThresholdExceeded th s = (max \<bar>distanceX s\<bar> \<bar>distanceY s\<bar> \<ge> th)"

definition direction :: "real \<Rightarrow> Tracker \<Rightarrow> UseSwipeDirection" where
  "direction th s =
     (if \<not> isThresholdExceeded th s then none
      else if \<bar>distanceX s\<bar> > \<bar>distanceY s\<bar>
        then (if distanceX s > 0 then left else right)
        else (if distanceY s > 0 then up else down))"

section \<open>Input filter\<close>

text \<open>\<^verbatim>\<open>a ?? b\<close>: the left operand unless it is \<^verbatim>\<open>undefined\<close> or \<^verbatim>\<open>null\<close>.\<close>

definition nullish :: "'a option \<Rightarrow> 'a \<Rightarrow> 'a" where
  "nullish a b = (case a of None \<Rightarrow> b | Some v \<Rightarrow> v)"

text \<open>\<^verbatim>\<open>options.pointerTypes?.includes(e.pointerType)\<close>: \<^verbatim>\<open>undefined\<close> when no
  allow-list is configured.\<close>

definition includesPointerType :: "UsePointerSwipeOptions \<Rightarrow> PointerEvent \<Rightarrow> bool option" where
  "includesPointerType options e =
     (case pointerTypes options of
        None \<Rightarrow> None
      | Some ts \<Rightarrow> Some (pointerType e \<in> set ts))"

text \<open>
  \<^verbatim>\<open>return options.pointerTypes?.includes(...) ?? (isReleasingButton || isPrimaryButton) ?? true\<close>.
  \<^verbatim>\<open>??\<close> associates to the left, and the value of the first \<^verbatim>\<open>??\<close> is a
  boolean, hence never nullish when it reaches the second one. The last operand is a
  parameter of \<open>eventIsAllowedWith\<close>; the source has the literal \<^verbatim>\<open>true\<close> there.
\<close>

definition eventIsAllowedWith :: "bool \<Rightarrow> UsePointerSwipeOptions \<Rightarrow> PointerEvent \<Rightarrow> bool" where
  "eventIsAllowedWith fallback options e =
     (let isReleasingButton = (buttons e = 0);
          isPrimaryButton = (buttons e = 1)
      in nullish (Some (nullish (includesPointerType options e)
                                (isReleasingButton \<or> isPrimaryButton)))
                 fallback)"

definition eventIsAllowed :: "UsePointerSwipeOptions \<Rightarrow> PointerEvent \<Rightarrow> bool" where
  "eventIsAllowed options e = eventIsAllowedWith True options e"

text \<open>The filter as the specification words it: the allow-list decides alone when it
  is configured, otherwise the event is allowed iff no button or exactly the primary
  button is pressed.\<close>

definition eventIsAllowed_spec :: "UsePointerSwipeOptions \<Rightarrow> PointerEvent \<Rightarrow> bool" where
  "eventIsAllowed_spec options e =
     (case pointerTypes options of
        Some ts \<Rightarrow> pointerType e \<in> set ts
      | None \<Rightarrow> buttons e = 0 \<or> buttons e = 1)"

section \<open>The three handlers\<close>

text \<open>Each handler takes the tracker's cells and the event, and returns the cells
  after the handler and the effects it caused, in order. The call of
  \<^verbatim>\<open>setPointerCapture\<close> is an effect like the callbacks; it is taken to return
  normally, as it does for the id of a pointer that is active. The style properties set
  in \<^verbatim>\<open>tryOnMounted\<close> and the logging listeners on \<^verbatim>\<open>document\<close> touch neither the
  cells nor the callbacks and are left out.\<close>

definition pointerdown_handler ::
  "UsePointerSwipeOptions \<Rightarrow> Tracker \<Rightarrow> PointerEvent \<Rightarrow> Tracker \<times> Effect list" where
  "pointerdown_handler options s e =
     (if \<not> eventIsAllowed options e then (s, [])
      else
        let s1 = s\<lparr>isPointerDown := True\<rparr>;
            capture = (case target e of
                         None \<Rightarrow> []
                       | Some el \<Rightarrow> [SetPointerCapture el (pointerId e)]);
            s2 = updatePosStart (clientX e) (clientY e) s1;
            s3 = updatePosEnd (clientX e) (clientY e) s2
        in (s3, capture @ (if onSwipeStart options then [OnSwipeStart e] else [])))"

definition pointermove_handler ::
  "UsePointerSwipeOptions \<Rightarrow> Tracker \<Rightarrow> PointerEvent \<Rightarrow> Tracker \<times> Effect list" where
  "pointermove_handler options s e =
     (if \<not> eventIsAllowed options e then (s, [])
      else if \<not> isPointerDown s then (s, [])
      else
        let s1 = updatePosEnd (clientX e) (clientY e) s;
            s2 = (if \<not> isSwiping s1 \<and> isThresholdExceeded (thresholdOf options) s1
                  then s1\<lparr>isSwiping := True\<rparr> else s1)
        in (s2, if isSwiping s2
                then (if onSwipe options then [OnSwipe e] else [])
                else []))"

definition pointerup_handler ::
  "UsePointerSwipeOptions \<Rightarrow> Tracker \<Rightarrow> PointerEvent \<Rightarrow> Tracker \<times> Effect list" where
  "pointerup_handler options s e =
     (if \<not> eventIsAllowed options e then (s, [])
      else
        (s\<lparr>isPointerDown := False, isSwiping := False\<rparr>,
         if isSwiping s
         then (if onSwipeEnd options
               then [OnSwipeEnd e (direction (thresholdOf options) s)] else [])
         else []))"

section \<open>Event bridge\<close>

datatype EventName = pointerdown | pointermove | pointerup

text \<open>The listeners attached to the target: the set of event names whose handler the
  host will call.\<close>

type_synonym Listeners = "EventName set"

text \<open>One tracker: its reactive cells and the listeners it has on its target.\<close>

record Instance =
  cells :: Tracker
  listeners :: Listeners

text \<open>
  Modelled from the spec: \<^verbatim>\<open>useEventListener.ts\<close>, which \<^verbatim>\<open>usePointerSwipe.ts\<close>
  imports, is not among the sources. The specification (4.4, 7) says that the bridge
  attaches a handler for each of the three events to the target, and that a target
  resolving to no surface makes the operation a no-op. \<open>useEventListener\<close> is the
  registration of the handler for one event name.
\<close>

definition useEventListener :: "Element option \<Rightarrow> EventName \<Rightarrow> Listeners \<Rightarrow> Listeners" where
  "useEventListener tgt name ls = (case tgt of None \<Rightarrow> ls | Some el \<Rightarrow> insert name ls)"

text \<open>
  Modelled from the spec: the function that \<^verbatim>\<open>useEventListener\<close> returns, absent from
  the sources like \<^verbatim>\<open>useEventListener\<close> itself. The specification (4.4, 5) says that
  disposal detaches the handler at once and may be repeated without error.
\<close>

definition useEventListener_stop :: "EventName \<Rightarrow> Listeners \<Rightarrow> Listeners" where
  "useEventListener_stop name ls = ls - {name}"

text \<open>\<^verbatim>\<open>const stops = [useEventListener(target, 'pointerdown', ...), ...]\<close>: the three
  disposal functions, in the order of the array.\<close>

definition stops :: "(Listeners \<Rightarrow> Listeners) list" where
  "stops = [useEventListener_stop pointerdown,
            useEventListener_stop pointermove,
            useEventListener_stop pointerup]"

text \<open>
  \<^verbatim>\<open>ss.forEach(s => s())\<close> for disposal functions \<open>ss\<close> of the bridge. A disposal
  function is created in another module and is given nothing but the target, the event
  name and the handler: it acts on the listeners, and the tracker's cells are out of its
  reach.
\<close>

definition forEachStop :: "(Listeners \<Rightarrow> Listeners) list \<Rightarrow> Instance \<Rightarrow> Instance" where
  "forEachStop ss inst = inst\<lparr>listeners := fold (\<lambda>s ls. s ls) ss (listeners inst)\<rparr>"

text \<open>\<^verbatim>\<open>const stop = () => stops.forEach(s => s())\<close>\<close>

definition stop :: "Instance \<Rightarrow> Instance" where
  "stop inst = forEachStop stops inst"

text \<open>The state \<^verbatim>\<open>usePointerSwipe(target, options)\<close> constructs.\<close>

definition usePointerSwipe :: "Element option \<Rightarrow> UsePointerSwipeOptions \<Rightarrow> Instance" where
  "usePointerSwipe tgt options =
     \<lparr>cells = \<lparr>posStart = \<lparr>posX = 0, posY = 0\<rparr>,
               posEnd = \<lparr>posX = 0, posY = 0\<rparr>,
               isSwiping = False,
               isPointerDown = False\<rparr>,
      listeners = fold (useEventListener tgt) [pointerdown, pointermove, pointerup] {}\<rparr>"

text \<open>The handler registered under an event name.\<close>

fun handler ::
  "UsePointerSwipeOptions \<Rightarrow> EventName \<Rightarrow> Tracker \<Rightarrow> PointerEvent \<Rightarrow> Tracker \<times> Effect list" where
  "handler options pointerdown = pointerdown_handler options"
| "handler options pointermove = pointermove_handler options"
| "handler options pointerup = pointerup_handler options"

text \<open>The host delivers one event to the target: the handler runs if it is still
  attached.\<close>

definition dispatch ::
  "UsePointerSwipeOptions \<Rightarrow> Instance \<Rightarrow> EventName \<times> PointerEvent \<Rightarrow> Instance \<times> Effect list" where
  "dispatch options inst ev =
     (if fst ev \<in> listeners inst
      then (let (s, fx) = handler options (fst ev) (cells inst) (snd ev)
            in (inst\<lparr>cells := s\<rparr>, fx))
      else (inst, []))"

text \<open>The host delivers a sequence of events, one after the other.\<close>

fun run ::
  "UsePointerSwipeOptions \<Rightarrow> Instance \<Rightarrow> (EventName \<times> PointerEvent) list \<Rightarrow> Instance \<times> Effect list" where
  "run options inst [] = (inst, [])"
| "run options inst (ev # evs) =
     (let (inst1, fx1) = dispatch options inst ev;
          (inst2, fx2) = run options inst1 evs
      in (inst2, fx1 @ fx2))"

text \<open>The callbacks among the effects.\<close>

fun isCallback :: "Effect \<Rightarrow> bool" where
  "isCallback (SetPointerCapture el pid) = False"
| "isCallback (OnSwipeStart e) = True"
| "isCallback (OnSwipe e) = True"
| "isCallback (OnSwipeEnd e d) = True"

definition callbacks :: "Effect list \<Rightarrow> Effect list" where
  "callbacks fx = filter isCallback fx"

fun isOnSwipeEnd :: "Effect \<Rightarrow> bool" where
  "isOnSwipeEnd (OnSwipeEnd e d) = True"
| "isOnSwipeEnd fx = False"

section \<open>Gestures\<close>

text \<open>The handlers run on a sequence of events, with no regard to the listeners.\<close>

fun handleAll ::
  "UsePointerSwipeOptions \<Rightarrow> Tracker \<Rightarrow> (EventName \<times> PointerEvent) list \<Rightarrow> Tracker \<times> Effect list" where
  "handleAll options s [] = (s, [])"
| "handleAll options s (ev # evs) =
     (let (s1, fx1) = handler options (fst ev) s (snd ev);
          (s2, fx2) = handleAll options s1 evs
      in (s2, fx1 @ fx2))"

text \<open>\<^verbatim>\<open>const { clientX: x, clientY: y } = e\<close>, as a position.\<close>

definition coords :: "PointerEvent \<Rightarrow> Position" where
  "coords e = \<lparr>posX = clientX e, posY = clientY e\<rparr>"

text \<open>A gesture: one pointer-down, the pointer-moves that follow it, one pointer-up.\<close>

definition moves :: "PointerEvent list \<Rightarrow> (EventName \<times> PointerEvent) list" where
  "moves ms = map (\<lambda>m. (pointermove, m)) ms"

definition gesture ::
  "PointerEvent \<Rightarrow> PointerEvent list \<Rightarrow> PointerEvent \<Rightarrow> (EventName \<times> PointerEvent) list" where
  "gesture d ms u = (pointerdown, d) # moves ms @ [(pointerup, u)]"

text \<open>The move \<open>m\<close> is at least the threshold away from the start position \<open>p\<close>.\<close>

definition reaches :: "UsePointerSwipeOptions \<Rightarrow> Position \<Rightarrow> PointerEvent \<Rightarrow> bool" where
  "reaches options p m =
     (max \<bar>posX p - clientX m\<bar> \<bar>posY p - clientY m\<bar> \<ge> thresholdOf options)"

text \<open>The displacement is below the threshold after each of the events. Nothing is
  asked of the ledger before the first event: no handler clears the positions, so it may
  be what an earlier gesture left behind.\<close>

fun staysBelow ::
  "UsePointerSwipeOptions \<Rightarrow> Instance \<Rightarrow> (EventName \<times> PointerEvent) list \<Rightarrow> bool" where
  "staysBelow options inst [] = True"
| "staysBelow options inst (ev # evs) =
     (\<not> isThresholdExceeded (thresholdOf options) (cells (fst (dispatch options inst ev)))
      \<and> staysBelow options (fst (dispatch options inst ev)) evs)"

subsection \<open>Concrete inputs\<close>

text \<open>Options with the three callbacks supplied, no allow-list and the default
  threshold of 50; a mouse event at a position with a button state; a ledger.\<close>

definition allCallbacks :: UsePointerSwipeOptions where
  "allCallbacks = \<lparr>disableTextSelect = None, onSwipe = True, onSwipeEnd = True,
     onSwipeStart = True, pointerTypes = None, threshold = None\<rparr>"

definition mouseAt :: "real \<Rightarrow> real \<Rightarrow> nat \<Rightarrow> PointerEvent" where
  "mouseAt x y b = \<lparr>buttons = b, pointerType = ''mouse'', pointerId = 1,
     clientX = x, clientY = y, target = Some 0\<rparr>"

definition ledger :: "real \<times> real \<Rightarrow> real \<times> real \<Rightarrow> bool \<Rightarrow> bool \<Rightarrow> Tracker" where
  "ledger a b sw dn = \<lparr>posStart = \<lparr>posX = fst a, posY = snd a\<rparr>,
     posEnd = \<lparr>posX = fst b, posY = snd b\<rparr>, isSwiping = sw, isPointerDown = dn\<rparr>"

text \<open>The tracker in the middle of a swipe: a pointer went down at (0, 0) and moved
  to (60, 0).\<close>

definition swipingInstance :: Instance where
  "swipingInstance =
     fst (run allCallbacks (usePointerSwipe (Some 0) allCallbacks)
            [(pointerdown, mouseAt 0 0 1), (pointermove, mouseAt 60 0 1)])"

text \<open>The tracker after a whole swipe from (0, 0) to (80, 5): both flags are cleared,
  the positions of the swipe remain.\<close>

definition afterSwipeInstance :: Instance where
  "afterSwipeInstance =
     fst (run allCallbacks (usePointerSwipe (Some 0) allCallbacks)
            (gesture (mouseAt 0 0 1) [mouseAt 20 0 1, mouseAt 60 0 1, mouseAt 80 5 1]
               (mouseAt 80 5 0)))"

section \<open>Helper lemmas\<close>

lemmas geometry_defs =
  direction_def isThresholdExceeded_def distanceX_def distanceY_def

lemmas filter_defs =
  eventIsAllowed_def eventIsAllowedWith_def nullish_def includesPointerType_def

lemmas input_defs = allCallbacks_def mouseAt_def ledger_def thresholdOf_def

lemmas handler_defs =
  pointerdown_handler_def pointermove_handler_def pointerup_handler_def
  updatePosStart_def updatePosEnd_def Let_def

lemmas bridge_defs =
  dispatch_def usePointerSwipe_def useEventListener_def stop_def forEachStop_def stops_def
  useEventListener_stop_def gesture_def moves_def callbacks_def coords_def reaches_def

lemma direction_cells:
  "posStart s = posStart t \<Longrightarrow> posEnd s = posEnd t \<Longrightarrow> direction th s = direction th t"
  by (simp add: geometry_defs)

lemma exceeded_posEnd:
  "isThresholdExceeded (thresholdOf options) (s\<lparr>posEnd := coords m\<rparr>)
     = reaches options (posStart s) m"
  by (simp add: isThresholdExceeded_def reaches_def distanceX_def distanceY_def coords_def)

lemma down_accepted:
  "eventIsAllowed options d \<Longrightarrow>
   pointerdown_handler options s d =
     (s\<lparr>isPointerDown := True, posStart := coords d, posEnd := coords d\<rparr>,
      (case target d of None \<Rightarrow> [] | Some el \<Rightarrow> [SetPointerCapture el (pointerId d)])
      @ (if onSwipeStart options then [OnSwipeStart d] else []))"
  by (simp add: pointerdown_handler_def Let_def updatePosStart_def updatePosEnd_def coords_def)

lemma move_accepted:
  "eventIsAllowed options m \<Longrightarrow> isPointerDown s \<Longrightarrow>
   pointermove_handler options s m =
     (if isSwiping s
      then (s\<lparr>posEnd := coords m\<rparr>, if onSwipe options then [OnSwipe m] else [])
      else if reaches options (posStart s) m
        then (s\<lparr>posEnd := coords m, isSwiping := True\<rparr>,
              if onSwipe options then [OnSwipe m] else [])
        else (s\<lparr>posEnd := coords m\<rparr>, []))"
  by (simp add: pointermove_handler_def Let_def updatePosEnd_def exceeded_posEnd [symmetric]
      coords_def isThresholdExceeded_def distanceX_def distanceY_def)

lemma up_accepted:
  "eventIsAllowed options u \<Longrightarrow>
   pointerup_handler options s u =
     (s\<lparr>isPointerDown := False, isSwiping := False\<rparr>,
      if isSwiping s \<and> onSwipeEnd options
      then [OnSwipeEnd u (direction (thresholdOf options) s)] else [])"
  by (simp add: pointerup_handler_def)

lemma handler_rejected:
  "\<not> eventIsAllowed options e \<Longrightarrow> handler options name s e = (s, [])"
  by (cases name)
     (simp_all add: pointerdown_handler_def pointermove_handler_def pointerup_handler_def)

lemma run_attached:
  "fst ` set evs \<subseteq> listeners inst \<Longrightarrow>
   run options inst evs =
     (inst\<lparr>cells := fst (handleAll options (cells inst) evs)\<rparr>,
      snd (handleAll options (cells inst) evs))"
  by (induction evs arbitrary: inst) (auto simp: dispatch_def split: prod.splits)

lemma handleAll_append:
  "handleAll options s (xs @ ys) =
     (let (s1, fx1) = handleAll options s xs;
          (s2, fx2) = handleAll options s1 ys
      in (s2, fx1 @ fx2))"
  by (induction xs arbitrary: s) (auto split: prod.splits)

text \<open>Moves once swiping: every accepted move calls \<^verbatim>\<open>onSwipe\<close>.\<close>

lemma moves_swiping:
  "isSwiping s \<Longrightarrow> isPointerDown s \<Longrightarrow> \<forall>m \<in> set ms. eventIsAllowed options m \<Longrightarrow>
   handleAll options s (moves ms) =
     (if ms = [] then s else s\<lparr>posEnd := coords (last ms)\<rparr>,
      if onSwipe options then map OnSwipe ms else [])"
  by (induction ms arbitrary: s) (auto simp: moves_def move_accepted)

text \<open>Moves after a pointer-down: silent up to the first move that reaches the
  threshold, \<^verbatim>\<open>onSwipe\<close> from that move on.\<close>

lemma moves_from_down:
  "\<not> isSwiping s \<Longrightarrow> isPointerDown s \<Longrightarrow> \<forall>m \<in> set ms. eventIsAllowed options m \<Longrightarrow>
   handleAll options s (moves ms) =
     ((if ms = [] then s else s\<lparr>posEnd := coords (last ms)\<rparr>)
         \<lparr>isSwiping := (\<exists>m \<in> set ms. reaches options (posStart s) m)\<rparr>,
      if onSwipe options
      then map OnSwipe (dropWhile (\<lambda>m. \<not> reaches options (posStart s) m) ms) else [])"
proof (induction ms arbitrary: s)
  case Nil
  then show ?case by (simp add: moves_def)
next
  case (Cons m ms)
  show ?case
  proof (cases "reaches options (posStart s) m")
    case True
    have "handleAll options (s\<lparr>posEnd := coords m, isSwiping := True\<rparr>) (moves ms) =
           (if ms = [] then s\<lparr>posEnd := coords m, isSwiping := True\<rparr>
            else s\<lparr>posEnd := coords m, isSwiping := True\<rparr>\<lparr>posEnd := coords (last ms)\<rparr>,
            if onSwipe options then map OnSwipe ms else [])"
      using Cons.prems by (intro moves_swiping) auto
    with True Cons.prems show ?thesis
      by (auto simp: moves_def move_accepted)
  next
    case False
    have "handleAll options (s\<lparr>posEnd := coords m\<rparr>) (moves ms) =
     ((if ms = [] then s\<lparr>posEnd := coords m\<rparr>
       else s\<lparr>posEnd := coords m\<rparr>\<lparr>posEnd := coords (last ms)\<rparr>)
         \<lparr>isSwiping := (\<exists>m' \<in> set ms. reaches options (posStart (s\<lparr>posEnd := coords m\<rparr>)) m')\<rparr>,
      if onSwipe options
      then map OnSwipe
             (dropWhile (\<lambda>m'. \<not> reaches options (posStart (s\<lparr>posEnd := coords m\<rparr>)) m') ms)
      else [])"
      using Cons.prems by (intro Cons.IH) auto
    with False Cons.prems show ?thesis
      by (auto simp: moves_def move_accepted)
  qed
qed

lemma callbacks_append: "callbacks (xs @ ys) = callbacks xs @ callbacks ys"
  by (simp add: callbacks_def)

lemma callbacks_capture:
  "callbacks (case t of None \<Rightarrow> [] | Some el \<Rightarrow> [SetPointerCapture el i]) = []"
  by (simp add: callbacks_def split: option.splits)

lemma callbacks_onSwipe: "callbacks (map OnSwipe xs) = map OnSwipe xs"
  by (induction xs) (simp_all add: callbacks_def)

text \<open>The effects of a whole gesture that reaches the threshold.\<close>

lemma gesture_effects:
  assumes idle: "\<not> isSwiping s"
    and d: "eventIsAllowed options d"
    and ms: "\<forall>m \<in> set ms. eventIsAllowed options m"
    and u: "eventIsAllowed options u"
    and cb: "onSwipeStart options" "onSwipe options" "onSwipeEnd options"
    and ex: "\<exists>m \<in> set ms. reaches options (coords d) m"
  shows "callbacks (snd (handleAll options s (gesture d ms u))) =
           OnSwipeStart d # map OnSwipe (dropWhile (\<lambda>m. \<not> reaches options (coords d) m) ms)
             @ [OnSwipeEnd u (direction (thresholdOf options)
                   \<lparr>posStart = coords d, posEnd = coords (last ms),
                    isSwiping = True, isPointerDown = True\<rparr>)]"
proof -
  let ?s1 = "s\<lparr>isPointerDown := True, posStart := coords d, posEnd := coords d\<rparr>"
  let ?s2 = "?s1\<lparr>posEnd := coords (last ms), isSwiping := True\<rparr>"
  let ?on = "map OnSwipe (dropWhile (\<lambda>m. \<not> reaches options (coords d) m) ms)"
  let ?cap = "case target d of None \<Rightarrow> [] | Some el \<Rightarrow> [SetPointerCapture el (pointerId d)]"
  from ex have ne: "ms \<noteq> []" by auto
  have dn: "pointerdown_handler options s d = (?s1, ?cap @ [OnSwipeStart d])"
    using d cb(1) by (simp add: down_accepted)
  have mv: "handleAll options ?s1 (moves ms) = (?s2, ?on)"
    using moves_from_down [of ?s1 ms options] idle ms cb(2) ex ne by simp
  have dir: "direction (thresholdOf options) ?s2
      = direction (thresholdOf options)
                   \<lparr>posStart = coords d, posEnd = coords (last ms),
                    isSwiping = True, isPointerDown = True\<rparr>"
    by (rule direction_cells) simp_all
  have upd: "pointerup_handler options ?s2 u =
      (?s2\<lparr>isPointerDown := False, isSwiping := False\<rparr>,
       [OnSwipeEnd u (direction (thresholdOf options) ?s2)])"
    using u cb(3) by (simp add: up_accepted)
  have "snd (handleAll options s (gesture d ms u)) =
      (?cap @ [OnSwipeStart d]) @ ?on @ [OnSwipeEnd u (direction (thresholdOf options) ?s2)]"
    unfolding gesture_def handleAll.simps handleAll_append
    by (simp only: handler.simps fst_conv snd_conv dn mv upd Let_def split_conv append_Nil2)
  then show ?thesis
    by (simp only: callbacks_append callbacks_capture callbacks_onSwipe dir)
       (simp add: callbacks_def)
qed

lemma exceeded_isSwiping:
  "isThresholdExceeded th (s\<lparr>isSwiping := b\<rparr>) = isThresholdExceeded th s"
  by (simp add: isThresholdExceeded_def distanceX_def distanceY_def)

text \<open>While the displacement stays below the threshold, no event starts a swipe or
  ends one.\<close>

lemma dispatch_keeps_idle:
  assumes "\<not> isSwiping (cells inst)"
    and "\<not> isThresholdExceeded (thresholdOf options) (cells (fst (dispatch options inst ev)))"
  shows "\<not> isSwiping (cells (fst (dispatch options inst ev)))
       \<and> filter isOnSwipeEnd (snd (dispatch options inst ev)) = []"
proof (cases "fst ev")
  case pointerdown
  with assms show ?thesis
    by (auto simp: dispatch_def pointerdown_handler_def Let_def updatePosStart_def
        updatePosEnd_def split: option.splits)
next
  case pointermove
  with assms show ?thesis
    by (auto simp: dispatch_def pointermove_handler_def Let_def exceeded_isSwiping
        updatePosEnd_def split: if_splits)
next
  case pointerup
  with assms show ?thesis
    by (auto simp: dispatch_def pointerup_handler_def)
qed

lemma below_no_end:
  "\<not> isSwiping (cells inst) \<Longrightarrow> staysBelow options inst evs \<Longrightarrow>
   filter isOnSwipeEnd (snd (run options inst evs)) = []
   \<and> \<not> isSwiping (cells (fst (run options inst evs)))"
proof (induction evs arbitrary: inst)
  case Nil
  then show ?case by simp
next
  case (Cons ev evs)
  let ?i = "fst (dispatch options inst ev)"
  from Cons.prems have sb: "staysBelow options ?i evs"
    and "\<not> isThresholdExceeded (thresholdOf options) (cells ?i)"
    by simp_all
  with Cons.prems have k: "\<not> isSwiping (cells ?i)"
     "filter isOnSwipeEnd (snd (dispatch options inst ev)) = []"
    using dispatch_keeps_idle [of inst options ev] by simp_all
  from Cons.IH [OF k(1) sb] k(2) show ?case
    by (simp add: split_beta)
qed

lemma stop_listeners: "listeners (stop inst) = {}"
proof -
  have "n \<notin> listeners (stop inst)" for n
    by (cases n) (simp_all add: stop_def forEachStop_def stops_def useEventListener_stop_def)
  then show ?thesis by blast
qed

lemma run_detached: "listeners inst = {} \<Longrightarrow> run options inst evs = (inst, [])"
  by (induction evs) (simp_all add: dispatch_def)

lemma run_rejected:
  "\<forall>ev \<in> set evs. \<not> eventIsAllowed options (snd ev) \<Longrightarrow> run options inst evs = (inst, [])"
  by (induction evs) (simp_all add: dispatch_def handler_rejected)

text \<open>On every state the tracker can reach, swiping implies that a pointer is down.\<close>

lemma dispatch_swiping_down:
  "isSwiping (cells inst) \<longrightarrow> isPointerDown (cells inst) \<Longrightarrow>
   isSwiping (cells (fst (dispatch options inst ev)))
     \<longrightarrow> isPointerDown (cells (fst (dispatch options inst ev)))"
  by (cases "fst ev")
     (auto simp: dispatch_def pointerdown_handler_def pointermove_handler_def
        pointerup_handler_def Let_def updatePosStart_def updatePosEnd_def split: if_splits)

lemma run_swiping_down:
  "isSwiping (cells inst) \<longrightarrow> isPointerDown (cells inst) \<Longrightarrow>
   isSwiping (cells (fst (run options inst evs)))
     \<longrightarrow> isPointerDown (cells (fst (run options inst evs)))"
proof (induction evs arbitrary: inst)
  case Nil
  then show ?case by simp
next
  case (Cons ev evs)
  from Cons.IH [OF dispatch_swiping_down [OF Cons.prems, of options ev]]
  show ?case by (simp add: split_beta)
qed

lemma allowed_mouse:
  "b = 0 \<or> b = 1 \<Longrightarrow> eventIsAllowed allCallbacks (mouseAt x y b)"
  by (auto simp: filter_defs input_defs)

lemma swipingInstance_eq:
  "swipingInstance =
     \<lparr>cells = ledger (0, 0) (60, 0) True True,
      listeners = {pointerdown, pointermove, pointerup}\<rparr>"
  by (simp add: swipingInstance_def bridge_defs handler_defs filter_defs input_defs
      isThresholdExceeded_def distanceX_def distanceY_def insert_commute)

lemma usePointerSwipe_listeners:
  "listeners (usePointerSwipe (Some el) options) = {pointerdown, pointermove, pointerup}"
  by (simp add: usePointerSwipe_def useEventListener_def insert_commute)

lemma gesture_names: "fst ` set (gesture d ms u) \<subseteq> {pointerdown, pointermove, pointerup}"
  by (auto simp: gesture_def moves_def)

lemma run_gesture:
  "{pointerdown, pointermove, pointerup} \<subseteq> listeners inst \<Longrightarrow>
   snd (run options inst (gesture d ms u)) = snd (handleAll options (cells inst) (gesture d ms u))"
  using gesture_names [of d ms u] by (subst run_attached) auto

lemma direction_below:
  "\<not> reaches options (coords d) m \<Longrightarrow>
   direction (thresholdOf options)
     \<lparr>posStart = coords d, posEnd = coords m, isSwiping = sw, isPointerDown = dn\<rparr> = none"
  by (simp add: geometry_defs reaches_def coords_def)

lemma afterSwipeInstance_eq:
  "afterSwipeInstance =
     \<lparr>cells = ledger (0, 0) (80, 5) False False,
      listeners = {pointerdown, pointermove, pointerup}\<rparr>"
  by (simp add: afterSwipeInstance_def bridge_defs handler_defs filter_defs input_defs
      isThresholdExceeded_def distanceX_def distanceY_def insert_commute)

lemma run_append:
  "run options inst (xs @ ys) =
     (let (inst1, fx1) = run options inst xs;
          (inst2, fx2) = run options inst1 ys
      in (inst2, fx1 @ fx2))"
  by (induction xs arbitrary: inst) (auto split: prod.splits)

lemma dispatch_move_below:
  assumes "\<not> isSwiping (cells inst)"
    and "\<not> reaches options (posStart (cells inst)) m"
  shows "\<not> isSwiping (cells (fst (dispatch options inst (pointermove, m))))
       \<and> posStart (cells (fst (dispatch options inst (pointermove, m)))) = posStart (cells inst)
       \<and> snd (dispatch options inst (pointermove, m)) = []"
proof (cases "pointermove \<in> listeners inst \<and> eventIsAllowed options m \<and> isPointerDown (cells inst)")
  case True
  with assms show ?thesis by (simp add: dispatch_def move_accepted)
next
  case False
  then show ?thesis
    using assms(1) by (auto simp: dispatch_def pointermove_handler_def)
qed

lemma moves_below:
  "\<not> isSwiping (cells inst) \<Longrightarrow> \<forall>m \<in> set ms. \<not> reaches options (posStart (cells inst)) m \<Longrightarrow>
   \<not> isSwiping (cells (fst (run options inst (moves ms))))
   \<and> snd (run options inst (moves ms)) = []"
proof (induction ms arbitrary: inst)
  case Nil
  then show ?case by (simp add: moves_def)
next
  case (Cons m ms)
  let ?i = "fst (dispatch options inst (pointermove, m))"
  from Cons.prems have k: "\<not> isSwiping (cells ?i)"
    "posStart (cells ?i) = posStart (cells inst)"
    "snd (dispatch options inst (pointermove, m)) = []"
    using dispatch_move_below [of inst options m] by simp_all
  from Cons.prems k(2) have "\<forall>m' \<in> set ms. \<not> reaches options (posStart (cells ?i)) m'"
    by simp
  from Cons.IH [OF k(1) this] k(3) show ?case
    by (simp add: moves_def split_beta)
qed

lemma up_idle_no_end:
  "\<not> isSwiping (cells inst) \<Longrightarrow>
   filter isOnSwipeEnd (snd (dispatch options inst (pointerup, u))) = []"
  by (simp add: dispatch_def pointerup_handler_def)

lemma filter_capture:
  "filter isOnSwipeEnd (case t of None \<Rightarrow> [] | Some el \<Rightarrow> [SetPointerCapture el i]) = []"
  by (simp split: option.splits)

text \<open>A gesture whose pointer-down is accepted and none of whose moves reaches the
  threshold never ends a swipe, whatever ledger an earlier gesture left.\<close>

lemma gesture_below_no_end:
  assumes idle: "\<not> isSwiping (cells inst)"
    and att: "pointerdown \<in> listeners inst"
    and d: "eventIsAllowed options d"
    and below: "\<forall>m \<in> set ms. \<not> reaches options (coords d) m"
  shows "filter isOnSwipeEnd (snd (run options inst (gesture d ms u))) = []"
proof -
  let ?i1 = "inst\<lparr>cells := (cells inst)\<lparr>isPointerDown := True, posStart := coords d,
                                       posEnd := coords d\<rparr>\<rparr>"
  let ?fx1 = "(case target d of None \<Rightarrow> [] | Some el \<Rightarrow> [SetPointerCapture el (pointerId d)])
      @ (if onSwipeStart options then [OnSwipeStart d] else [])"
  have dn: "dispatch options inst (pointerdown, d) = (?i1, ?fx1)"
    using att d by (simp add: dispatch_def down_accepted)
  have fx1: "filter isOnSwipeEnd ?fx1 = []"
    by (simp add: filter_capture)
  have i1: "\<not> isSwiping (cells ?i1)" "\<forall>m \<in> set ms. \<not> reaches options (posStart (cells ?i1)) m"
    using idle below by simp_all
  note mv = moves_below [OF i1]
  let ?i2 = "fst (run options ?i1 (moves ms))"
  from mv have up: "filter isOnSwipeEnd (snd (dispatch options ?i2 (pointerup, u))) = []"
    by (intro up_idle_no_end) simp
  have "snd (run options inst (gesture d ms u))
      = ?fx1 @ snd (run options ?i1 (moves ms)) @ snd (dispatch options ?i2 (pointerup, u))"
    by (simp add: gesture_def run_append dn split_beta)
  with fx1 mv up show ?thesis
    by (simp del: filter_append add: filter_append [of isOnSwipeEnd])
qed

section \<open>The claims\<close>

text \<open>
  Claim C1. The direction is a function of the ledger and the threshold alone. It is
  \<open>none\<close> exactly when the larger of the two absolute displacements is below the
  threshold, so a displacement equal to the threshold already gives a direction. When
  the threshold is met and the horizontal displacement is strictly the larger one, the
  direction is \<open>left\<close> for a positive \<open>distanceX\<close> and \<open>right\<close> otherwise. With
  \<open>distanceX = 80\<close>, \<open>distanceY = 10\<close> and threshold 50 it is \<open>left\<close>.
\<close>

theorem direction_classification:
  "(direction th s = none \<longleftrightarrow> max \<bar>distanceX s\<bar> \<bar>distanceY s\<bar> < th)
   \<and> (max \<bar>distanceX s\<bar> \<bar>distanceY s\<bar> = th \<longrightarrow> direction th s \<noteq> none)
   \<and> (max \<bar>distanceX s\<bar> \<bar>distanceY s\<bar> \<ge> th \<and> \<bar>distanceX s\<bar> > \<bar>distanceY s\<bar>
        \<longrightarrow> direction th s = (if distanceX s > 0 then left else right))
   \<and> (distanceX s = 80 \<and> distanceY s = 10 \<longrightarrow> direction 50 s = left)
   \<and> (posStart s = posStart t \<and> posEnd s = posEnd t \<longrightarrow> direction th s = direction th t)"
  using direction_cells [of s t th] by (auto simp: direction_def isThresholdExceeded_def)

theorem direction_classification_witness:
  "distanceX (ledger (100, 30) (20, 20) False True) = 80
   \<and> distanceY (ledger (100, 30) (20, 20) False True) = 10
   \<and> max \<bar>distanceX (ledger (100, 30) (20, 20) False True)\<bar>
         \<bar>distanceY (ledger (100, 30) (20, 20) False True)\<bar> \<ge> 50
   \<and> direction 50 (ledger (100, 30) (20, 20) False True) = left"
  using direction_classification [of 50 "ledger (100, 30) (20, 20) False True"
      "ledger (100, 30) (20, 20) False True"]
  by (simp add: ledger_def distanceX_def distanceY_def)

text \<open>
  Claim C2 says that equal absolute displacements at or above the threshold give a
  horizontal direction. The code tests \<^verbatim>\<open>abs(distanceX) > abs(distanceY)\<close> strictly and
  falls to the vertical branch on a tie: with both displacements 60 and threshold 50 the
  direction is \<open>up\<close>.
\<close>

theorem tie_horizontal_counterexample:
  "\<bar>distanceX (ledger (60, 60) (0, 0) True True)\<bar> = \<bar>distanceY (ledger (60, 60) (0, 0) True True)\<bar>
   \<and> \<bar>distanceX (ledger (60, 60) (0, 0) True True)\<bar> \<ge> 50
   \<and> direction 50 (ledger (60, 60) (0, 0) True True) = up
   \<and> direction 50 (ledger (60, 60) (0, 0) True True) \<noteq> left
   \<and> direction 50 (ledger (60, 60) (0, 0) True True) \<noteq> right"
  by (simp add: ledger_def geometry_defs)

text \<open>
  Claim C2, amended. When the absolute displacements are equal and at or above the
  threshold, the tie goes to the vertical axis: the direction is \<open>up\<close> for a positive
  \<open>distanceY\<close> and \<open>down\<close> otherwise.
\<close>

theorem tie_resolves_vertical:
  "\<bar>distanceX s\<bar> = \<bar>distanceY s\<bar> \<Longrightarrow> \<bar>distanceX s\<bar> \<ge> th \<Longrightarrow>
   direction th s = (if distanceY s > 0 then up else down)"
  by (auto simp: direction_def isThresholdExceeded_def)

theorem tie_resolves_vertical_witness:
  "\<bar>distanceX (ledger (0, 0) (60, 60) True True)\<bar> = \<bar>distanceY (ledger (0, 0) (60, 60) True True)\<bar>
   \<and> \<bar>distanceX (ledger (0, 0) (60, 60) True True)\<bar> \<ge> 50
   \<and> direction 50 (ledger (0, 0) (60, 60) True True) = down"
  using tie_resolves_vertical [of "ledger (0, 0) (60, 60) True True" 50]
  by (simp add: ledger_def distanceX_def distanceY_def)

text \<open>
  Claim C5. The input filter of the source computes what the specification's simplified
  filter computes, on every configuration and every event: the allow-list decides alone
  when it is configured, and otherwise the event is allowed iff \<open>buttons\<close> is 0 or 1.
  The trailing \<^verbatim>\<open>?? true\<close> is dead: replacing \<^verbatim>\<open>true\<close> by any other value leaves
  the result unchanged.
\<close>

theorem eventIsAllowed_refines_spec:
  "eventIsAllowed options e = eventIsAllowed_spec options e
   \<and> (\<forall>fallback. eventIsAllowedWith fallback options e = eventIsAllowed options e)"
  by (simp add: filter_defs eventIsAllowed_spec_def split: option.splits)

theorem eventIsAllowed_refines_spec_witness:
  "eventIsAllowed allCallbacks (mouseAt 0 0 1)
   \<and> \<not> eventIsAllowed allCallbacks (mouseAt 0 0 2)
   \<and> eventIsAllowed (allCallbacks\<lparr>pointerTypes := Some [''touch'', ''pen'']\<rparr>) (mouseAt 0 0 1) = False
   \<and> eventIsAllowedWith False allCallbacks (mouseAt 0 0 1)"
  using eventIsAllowed_refines_spec [of allCallbacks "mouseAt 0 0 1"]
    eventIsAllowed_refines_spec [of allCallbacks "mouseAt 0 0 2"]
    eventIsAllowed_refines_spec [of "allCallbacks\<lparr>pointerTypes := Some [''touch'', ''pen'']\<rparr>" "mouseAt 0 0 1"]
  by (simp add: eventIsAllowed_spec_def input_defs)

text \<open>
  Claim C10. The pointer-down handler does not look at the current state. Every allowed
  pointer-down, whatever \<open>isPointerDown\<close> and \<open>isSwiping\<close> are, sets \<open>posStart\<close> and
  \<open>posEnd\<close> to the coordinates of the event, so that both displacements are zero,
  sets \<open>isPointerDown\<close>, leaves \<open>isSwiping\<close> as it was, and calls
  \<^verbatim>\<open>onSwipeStart\<close> (when the caller supplied it).
\<close>

theorem pointerdown_restarts:
  assumes "eventIsAllowed options e"
  shows "posStart (fst (pointerdown_handler options s e)) = coords e
       \<and> posEnd (fst (pointerdown_handler options s e)) = coords e
       \<and> distanceX (fst (pointerdown_handler options s e)) = 0
       \<and> distanceY (fst (pointerdown_handler options s e)) = 0
       \<and> isSwiping (fst (pointerdown_handler options s e)) = isSwiping s
       \<and> isPointerDown (fst (pointerdown_handler options s e))
       \<and> callbacks (snd (pointerdown_handler options s e))
           = (if onSwipeStart options then [OnSwipeStart e] else [])"
  using assms
  by (simp add: down_accepted distanceX_def distanceY_def callbacks_append callbacks_capture)
     (simp add: callbacks_def)

theorem pointerdown_restarts_witness:
  "eventIsAllowed allCallbacks (mouseAt 7 9 1)
   \<and> isSwiping (ledger (100, 30) (20, 20) True True)
   \<and> isPointerDown (ledger (100, 30) (20, 20) True True)
   \<and> fst (pointerdown_handler allCallbacks (ledger (100, 30) (20, 20) True True) (mouseAt 7 9 1))
       = ledger (7, 9) (7, 9) True True
   \<and> callbacks (snd (pointerdown_handler allCallbacks (ledger (100, 30) (20, 20) True True)
        (mouseAt 7 9 1))) = [OnSwipeStart (mouseAt 7 9 1)]"
  using pointerdown_restarts [of allCallbacks "mouseAt 7 9 1" "ledger (100, 30) (20, 20) True True"]
  by (simp add: filter_defs input_defs handler_defs callbacks_def)

text \<open>
  Claim C6. An event that cannot act on the tracker changes nothing and causes no effect:
  an event the input filter rejects, under any of the three event names and in any
  state; a pointer-move while no pointer is down; a pointer-up while no pointer is down
  and no swipe is on. A whole sequence of rejected events leaves the tracker as it was.
  In every state that events lead to from the initial one, swiping implies that a pointer
  is down, so there a pointer-up while no pointer is down is a no-op.
\<close>

theorem ignored_events_are_noops:
  "(\<not> eventIsAllowed options e \<longrightarrow> dispatch options inst (name, e) = (inst, []))
   \<and> (\<not> isPointerDown (cells inst) \<longrightarrow> dispatch options inst (pointermove, e) = (inst, []))
   \<and> (\<not> isPointerDown (cells inst) \<and> \<not> isSwiping (cells inst)
        \<longrightarrow> dispatch options inst (pointerup, e) = (inst, []))
   \<and> ((\<forall>ev \<in> set evs. \<not> eventIsAllowed options (snd ev)) \<longrightarrow> run options inst evs = (inst, []))
   \<and> (\<not> isPointerDown (cells (fst (run options (usePointerSwipe tgt options) evs))) \<longrightarrow>
        dispatch options (fst (run options (usePointerSwipe tgt options) evs)) (pointerup, e)
          = (fst (run options (usePointerSwipe tgt options) evs), []))"
proof -
  let ?reached = "fst (run options (usePointerSwipe tgt options) evs)"
  have "isSwiping (cells ?reached) \<longrightarrow> isPointerDown (cells ?reached)"
    by (rule run_swiping_down) (simp add: usePointerSwipe_def)
  then have "\<not> isPointerDown (cells ?reached) \<longrightarrow>
      dispatch options ?reached (pointerup, e) = (?reached, [])"
    by (auto simp: dispatch_def pointerup_handler_def)
  then show ?thesis
    by (simp add: dispatch_def handler_rejected pointermove_handler_def pointerup_handler_def
        run_rejected)
qed

theorem ignored_events_are_noops_witness:
  "\<not> eventIsAllowed allCallbacks (mouseAt 5 5 2)
   \<and> \<not> isPointerDown (cells (usePointerSwipe (Some 0) allCallbacks))
   \<and> \<not> isSwiping (cells (usePointerSwipe (Some 0) allCallbacks))
   \<and> dispatch allCallbacks (usePointerSwipe (Some 0) allCallbacks) (pointerdown, mouseAt 5 5 2)
       = (usePointerSwipe (Some 0) allCallbacks, [])
   \<and> dispatch allCallbacks (usePointerSwipe (Some 0) allCallbacks) (pointermove, mouseAt 70 5 1)
       = (usePointerSwipe (Some 0) allCallbacks, [])
   \<and> dispatch allCallbacks (usePointerSwipe (Some 0) allCallbacks) (pointerup, mouseAt 70 5 0)
       = (usePointerSwipe (Some 0) allCallbacks, [])
   \<and> run allCallbacks (usePointerSwipe (Some 0) allCallbacks)
        [(pointerdown, mouseAt 5 5 2), (pointermove, mouseAt 70 5 2), (pointerup, mouseAt 70 5 4)]
       = (usePointerSwipe (Some 0) allCallbacks, [])"
proof -
  let ?inst = "usePointerSwipe (Some 0) allCallbacks"
  let ?evs = "[(pointerdown, mouseAt 5 5 2), (pointermove, mouseAt 70 5 2),
               (pointerup, mouseAt 70 5 4)]"
  have rejected: "\<not> eventIsAllowed allCallbacks (mouseAt 5 5 2)"
    "\<forall>ev \<in> set ?evs. \<not> eventIsAllowed allCallbacks (snd ev)"
    by (simp_all add: filter_defs input_defs)
  have idle: "\<not> isPointerDown (cells ?inst)" "\<not> isSwiping (cells ?inst)"
    by (simp_all add: usePointerSwipe_def)
  from rejected idle
    ignored_events_are_noops [of allCallbacks "mouseAt 5 5 2" ?inst pointerdown ?evs "Some 0"]
    ignored_events_are_noops [of allCallbacks "mouseAt 70 5 1" ?inst pointermove "[]" "Some 0"]
    ignored_events_are_noops [of allCallbacks "mouseAt 70 5 0" ?inst pointerup "[]" "Some 0"]
  show ?thesis by blast
qed

text \<open>
  Claim C3. On every allowed pointer-up, \<^verbatim>\<open>onSwipeEnd\<close> is called if and only if
  \<open>isSwiping\<close> holds at that moment (and the caller supplied the callback); its
  direction argument is the direction computed from \<open>posStart\<close> and \<open>posEnd\<close> as they
  are then; afterwards \<open>isSwiping\<close> and \<open>isPointerDown\<close> are both false. From any
  state with no swipe on, whatever positions an earlier gesture left in the ledger, a
  sequence of events after each of which the displacement is below the threshold never
  calls \<^verbatim>\<open>onSwipeEnd\<close>; nor does a gesture whose pointer-down is accepted and none of
  whose moves is as far as the threshold from that pointer-down.
\<close>

theorem pointerup_ends_swipe:
  "(eventIsAllowed options e \<longrightarrow>
      snd (pointerup_handler options s e)
        = (if isSwiping s \<and> onSwipeEnd options
           then [OnSwipeEnd e (direction (thresholdOf options) s)] else [])
      \<and> (onSwipeEnd options \<longrightarrow>
           (filter isOnSwipeEnd (snd (pointerup_handler options s e)) \<noteq> []) = isSwiping s)
      \<and> \<not> isSwiping (fst (pointerup_handler options s e))
      \<and> \<not> isPointerDown (fst (pointerup_handler options s e)))
   \<and> (\<not> isSwiping (cells inst) \<and> staysBelow options inst evs \<longrightarrow>
        filter isOnSwipeEnd (snd (run options inst evs)) = [])
   \<and> (\<not> isSwiping (cells inst) \<and> pointerdown \<in> listeners inst
        \<and> eventIsAllowed options d \<and> (\<forall>m \<in> set ms. \<not> reaches options (coords d) m) \<longrightarrow>
        filter isOnSwipeEnd (snd (run options inst (gesture d ms u))) = [])"
  using below_no_end [of inst options evs] gesture_below_no_end [of inst options d ms u]
  by (simp add: up_accepted)

theorem pointerup_ends_swipe_witness:
  "eventIsAllowed allCallbacks (mouseAt 20 20 0)
   \<and> snd (pointerup_handler allCallbacks (ledger (100, 30) (20, 20) True True) (mouseAt 20 20 0))
       = [OnSwipeEnd (mouseAt 20 20 0) left]
   \<and> snd (pointerup_handler allCallbacks (ledger (100, 30) (20, 20) False True) (mouseAt 20 20 0))
       = []
   \<and> \<not> isSwiping (cells (usePointerSwipe (Some 0) allCallbacks))
   \<and> staysBelow allCallbacks (usePointerSwipe (Some 0) allCallbacks)
        (gesture (mouseAt 0 0 1) [mouseAt 10 5 1, mouseAt 30 0 1] (mouseAt 30 0 0))
   \<and> filter isOnSwipeEnd (snd (run allCallbacks (usePointerSwipe (Some 0) allCallbacks)
        (gesture (mouseAt 0 0 1) [mouseAt 10 5 1, mouseAt 30 0 1] (mouseAt 30 0 0)))) = []
   \<and> isThresholdExceeded (thresholdOf allCallbacks) (cells afterSwipeInstance)
   \<and> \<not> isSwiping (cells afterSwipeInstance)
   \<and> pointerdown \<in> listeners afterSwipeInstance
   \<and> eventIsAllowed allCallbacks (mouseAt 200 200 1)
   \<and> \<not> reaches allCallbacks (coords (mouseAt 200 200 1)) (mouseAt 210 203 1)
   \<and> staysBelow allCallbacks afterSwipeInstance
        (gesture (mouseAt 200 200 1) [mouseAt 210 203 1] (mouseAt 210 203 0))
   \<and> filter isOnSwipeEnd (snd (run allCallbacks afterSwipeInstance
        (gesture (mouseAt 200 200 1) [mouseAt 210 203 1] (mouseAt 210 203 0)))) = []"
proof -
  let ?inst = "usePointerSwipe (Some 0) allCallbacks"
  let ?evs = "gesture (mouseAt 0 0 1) [mouseAt 10 5 1, mouseAt 30 0 1] (mouseAt 30 0 0)"
  let ?d = "mouseAt 200 200 1"
  let ?ms = "[mouseAt 210 203 1]"
  let ?u = "mouseAt 210 203 0"
  have a: "eventIsAllowed allCallbacks (mouseAt 20 20 0)" "eventIsAllowed allCallbacks ?d"
    by (simp_all add: allowed_mouse)
  have dir: "direction (thresholdOf allCallbacks) (ledger (100, 30) (20, 20) True True) = left"
    by (simp add: geometry_defs input_defs)
  have sw: "isSwiping (ledger (100, 30) (20, 20) True True)"
     "\<not> isSwiping (ledger (100, 30) (20, 20) False True)"
     "onSwipeEnd allCallbacks"
    by (simp_all add: input_defs)
  have idle: "\<not> isSwiping (cells ?inst)"
    by (simp add: usePointerSwipe_def)
  have below: "staysBelow allCallbacks ?inst ?evs"
    by (simp add: bridge_defs handler_defs filter_defs input_defs
        isThresholdExceeded_def distanceX_def distanceY_def)
  have stale: "isThresholdExceeded (thresholdOf allCallbacks) (cells afterSwipeInstance)"
    by (simp add: afterSwipeInstance_eq isThresholdExceeded_def distanceX_def distanceY_def
        input_defs)
  have idle2: "\<not> isSwiping (cells afterSwipeInstance)"
    "pointerdown \<in> listeners afterSwipeInstance"
    by (simp_all add: afterSwipeInstance_eq ledger_def)
  have tap: "\<forall>m \<in> set ?ms. \<not> reaches allCallbacks (coords ?d) m"
    by (simp add: reaches_def coords_def input_defs)
  have below2: "staysBelow allCallbacks afterSwipeInstance (gesture ?d ?ms ?u)"
    by (simp add: afterSwipeInstance_eq bridge_defs handler_defs filter_defs input_defs
        isThresholdExceeded_def distanceX_def distanceY_def)
  from a dir sw idle below
    pointerup_ends_swipe [of allCallbacks "mouseAt 20 20 0" "ledger (100, 30) (20, 20) True True"
       ?inst ?evs "mouseAt 0 0 1" "[]" "mouseAt 0 0 0"]
    pointerup_ends_swipe [of allCallbacks "mouseAt 20 20 0" "ledger (100, 30) (20, 20) False True"
       ?inst ?evs "mouseAt 0 0 1" "[]" "mouseAt 0 0 0"]
  have fresh: "snd (pointerup_handler allCallbacks (ledger (100, 30) (20, 20) True True)
                  (mouseAt 20 20 0)) = [OnSwipeEnd (mouseAt 20 20 0) left]"
    "snd (pointerup_handler allCallbacks (ledger (100, 30) (20, 20) False True)
                  (mouseAt 20 20 0)) = []"
    "filter isOnSwipeEnd (snd (run allCallbacks ?inst ?evs)) = []"
    by simp_all
  from a(2) idle2 tap
    pointerup_ends_swipe [of allCallbacks "mouseAt 20 20 0" "ledger (100, 30) (20, 20) True True"
       afterSwipeInstance "gesture ?d ?ms ?u" ?d ?ms ?u]
  have again: "filter isOnSwipeEnd (snd (run allCallbacks afterSwipeInstance (gesture ?d ?ms ?u))) = []"
    by blast
  from tap have "\<not> reaches allCallbacks (coords ?d) (mouseAt 210 203 1)"
    by simp
  with a idle below stale idle2 below2 fresh again show ?thesis
    by blast
qed

text \<open>
  Claim C4. Every allowed pointer-move while a pointer is down sets \<open>posEnd\<close> to the
  coordinates of the event and leaves \<open>posStart\<close> and \<open>isPointerDown\<close> alone.
  \<open>isSwiping\<close> holds afterwards iff it held before or the move reaches the threshold;
  when it held before, the move writes \<open>posEnd\<close> and nothing else. \<^verbatim>\<open>onSwipe\<close> is
  called iff \<open>isSwiping\<close> holds after the move, hence also on the move that first
  reaches the threshold. For a gesture that starts with no swipe on, whose events are all
  allowed and one of whose moves reaches the threshold, the callbacks are, in this order:
  \<^verbatim>\<open>onSwipeStart\<close> once, \<^verbatim>\<open>onSwipe\<close> for the first move that reaches the
  threshold and for every move after it (at least one), \<^verbatim>\<open>onSwipeEnd\<close> once.
\<close>

theorem pointermove_swiping:
  "(eventIsAllowed options e \<and> isPointerDown s \<longrightarrow>
      posEnd (fst (pointermove_handler options s e)) = coords e
      \<and> posStart (fst (pointermove_handler options s e)) = posStart s
      \<and> isPointerDown (fst (pointermove_handler options s e))
      \<and> isSwiping (fst (pointermove_handler options s e))
           = (isSwiping s \<or> reaches options (posStart s) e)
      \<and> (isSwiping s \<longrightarrow>
           fst (pointermove_handler options s e) = updatePosEnd (clientX e) (clientY e) s)
      \<and> snd (pointermove_handler options s e)
           = (if isSwiping (fst (pointermove_handler options s e)) \<and> onSwipe options
              then [OnSwipe e] else []))
   \<and> ({pointerdown, pointermove, pointerup} \<subseteq> listeners inst
        \<and> \<not> isSwiping (cells inst)
        \<and> eventIsAllowed options d \<and> (\<forall>m \<in> set ms. eventIsAllowed options m)
        \<and> eventIsAllowed options u
        \<and> onSwipeStart options \<and> onSwipe options \<and> onSwipeEnd options
        \<and> (\<exists>m \<in> set ms. reaches options (coords d) m) \<longrightarrow>
      dropWhile (\<lambda>m. \<not> reaches options (coords d) m) ms \<noteq> []
      \<and> callbacks (snd (run options inst (gesture d ms u)))
          = OnSwipeStart d
            # map OnSwipe (dropWhile (\<lambda>m. \<not> reaches options (coords d) m) ms)
            @ [OnSwipeEnd u (direction (thresholdOf options)
                 \<lparr>posStart = coords d, posEnd = coords (last ms),
                  isSwiping = True, isPointerDown = True\<rparr>)])"
proof -
  have "eventIsAllowed options e \<and> isPointerDown s \<longrightarrow>
      posEnd (fst (pointermove_handler options s e)) = coords e
      \<and> posStart (fst (pointermove_handler options s e)) = posStart s
      \<and> isPointerDown (fst (pointermove_handler options s e))
      \<and> isSwiping (fst (pointermove_handler options s e))
           = (isSwiping s \<or> reaches options (posStart s) e)
      \<and> (isSwiping s \<longrightarrow>
           fst (pointermove_handler options s e) = updatePosEnd (clientX e) (clientY e) s)
      \<and> snd (pointermove_handler options s e)
           = (if isSwiping (fst (pointermove_handler options s e)) \<and> onSwipe options
              then [OnSwipe e] else [])"
    by (simp add: move_accepted updatePosEnd_def coords_def)
  moreover have "{pointerdown, pointermove, pointerup} \<subseteq> listeners inst
        \<and> \<not> isSwiping (cells inst)
        \<and> eventIsAllowed options d \<and> (\<forall>m \<in> set ms. eventIsAllowed options m)
        \<and> eventIsAllowed options u
        \<and> onSwipeStart options \<and> onSwipe options \<and> onSwipeEnd options
        \<and> (\<exists>m \<in> set ms. reaches options (coords d) m) \<longrightarrow>
      dropWhile (\<lambda>m. \<not> reaches options (coords d) m) ms \<noteq> []
      \<and> callbacks (snd (run options inst (gesture d ms u)))
          = OnSwipeStart d
            # map OnSwipe (dropWhile (\<lambda>m. \<not> reaches options (coords d) m) ms)
            @ [OnSwipeEnd u (direction (thresholdOf options)
                 \<lparr>posStart = coords d, posEnd = coords (last ms),
                  isSwiping = True, isPointerDown = True\<rparr>)]"
  proof (intro impI conjI; elim conjE)
    assume "\<exists>m \<in> set ms. reaches options (coords d) m"
    then show "dropWhile (\<lambda>m. \<not> reaches options (coords d) m) ms \<noteq> []"
      by simp
  next
    assume "{pointerdown, pointermove, pointerup} \<subseteq> listeners inst"
      "\<not> isSwiping (cells inst)"
      "eventIsAllowed options d" "\<forall>m \<in> set ms. eventIsAllowed options m"
      "eventIsAllowed options u"
      "onSwipeStart options" "onSwipe options" "onSwipeEnd options"
      "\<exists>m \<in> set ms. reaches options (coords d) m"
    then show "callbacks (snd (run options inst (gesture d ms u)))
          = OnSwipeStart d
            # map OnSwipe (dropWhile (\<lambda>m. \<not> reaches options (coords d) m) ms)
            @ [OnSwipeEnd u (direction (thresholdOf options)
                 \<lparr>posStart = coords d, posEnd = coords (last ms),
                  isSwiping = True, isPointerDown = True\<rparr>)]"
      by (simp add: run_gesture gesture_effects)
  qed
  ultimately show ?thesis by (rule conjI)
qed

theorem pointermove_swiping_witness:
  "eventIsAllowed allCallbacks (mouseAt 60 0 1)
   \<and> isPointerDown (ledger (0, 0) (20, 0) False True)
   \<and> pointermove_handler allCallbacks (ledger (0, 0) (20, 0) False True) (mouseAt 60 0 1)
       = (ledger (0, 0) (60, 0) True True, [OnSwipe (mouseAt 60 0 1)])
   \<and> callbacks (snd (run allCallbacks (usePointerSwipe (Some 0) allCallbacks)
        (gesture (mouseAt 0 0 1) [mouseAt 20 0 1, mouseAt 60 0 1, mouseAt 80 5 1]
           (mouseAt 80 5 0))))
       = [OnSwipeStart (mouseAt 0 0 1), OnSwipe (mouseAt 60 0 1), OnSwipe (mouseAt 80 5 1),
          OnSwipeEnd (mouseAt 80 5 0) right]"
proof -
  let ?inst = "usePointerSwipe (Some 0) allCallbacks"
  let ?d = "mouseAt 0 0 1"
  let ?ms = "[mouseAt 20 0 1, mouseAt 60 0 1, mouseAt 80 5 1]"
  let ?u = "mouseAt 80 5 0"
  let ?s = "ledger (0, 0) (20, 0) False True"
  have att: "{pointerdown, pointermove, pointerup} \<subseteq> listeners ?inst"
    by (simp add: usePointerSwipe_listeners)
  have idle: "\<not> isSwiping (cells ?inst)"
    by (simp add: usePointerSwipe_def)
  have allowed: "eventIsAllowed allCallbacks ?d" "\<forall>m \<in> set ?ms. eventIsAllowed allCallbacks m"
    "eventIsAllowed allCallbacks ?u" "eventIsAllowed allCallbacks (mouseAt 60 0 1)"
    by (simp_all add: allowed_mouse)
  have cb: "onSwipeStart allCallbacks" "onSwipe allCallbacks" "onSwipeEnd allCallbacks"
    by (simp_all add: allCallbacks_def)
  have ex: "\<exists>m \<in> set ?ms. reaches allCallbacks (coords ?d) m"
    by (simp add: reaches_def coords_def input_defs)
  have dw: "dropWhile (\<lambda>m. \<not> reaches allCallbacks (coords ?d) m) ?ms
              = [mouseAt 60 0 1, mouseAt 80 5 1]"
    by (simp add: reaches_def coords_def input_defs)
  have dir: "direction (thresholdOf allCallbacks)
               \<lparr>posStart = coords ?d, posEnd = coords (last ?ms),
                isSwiping = True, isPointerDown = True\<rparr> = right"
    by (simp add: geometry_defs coords_def input_defs)
  have dn: "isPointerDown ?s" "\<not> isSwiping ?s"
    by (simp_all add: ledger_def)
  have rc: "reaches allCallbacks (posStart ?s) (mouseAt 60 0 1)"
    by (simp add: reaches_def input_defs)
  have st: "updatePosEnd 60 0 ?s\<lparr>isSwiping := True\<rparr> = ledger (0, 0) (60, 0) True True"
    by (simp add: updatePosEnd_def ledger_def)
  note t = pointermove_swiping [of allCallbacks "mouseAt 60 0 1" ?s ?inst ?d ?ms ?u]
  from t att idle allowed cb ex
  have g: "callbacks (snd (run allCallbacks ?inst (gesture ?d ?ms ?u)))
          = OnSwipeStart ?d
            # map OnSwipe (dropWhile (\<lambda>m. \<not> reaches allCallbacks (coords ?d) m) ?ms)
            @ [OnSwipeEnd ?u (direction (thresholdOf allCallbacks)
                 \<lparr>posStart = coords ?d, posEnd = coords (last ?ms),
                  isSwiping = True, isPointerDown = True\<rparr>)]"
    by blast
  from t allowed(4) dn rc
  have h: "isSwiping (fst (pointermove_handler allCallbacks ?s (mouseAt 60 0 1)))"
    "posEnd (fst (pointermove_handler allCallbacks ?s (mouseAt 60 0 1))) = coords (mouseAt 60 0 1)"
    "posStart (fst (pointermove_handler allCallbacks ?s (mouseAt 60 0 1))) = posStart ?s"
    "isPointerDown (fst (pointermove_handler allCallbacks ?s (mouseAt 60 0 1)))"
    "snd (pointermove_handler allCallbacks ?s (mouseAt 60 0 1)) = [OnSwipe (mouseAt 60 0 1)]"
    using cb(2) by simp_all
  have "fst (pointermove_handler allCallbacks ?s (mouseAt 60 0 1)) = ledger (0, 0) (60, 0) True True"
    using h(1-4) by (cases "fst (pointermove_handler allCallbacks ?s (mouseAt 60 0 1))")
      (simp add: ledger_def coords_def mouseAt_def)
  with h(5) have m: "pointermove_handler allCallbacks ?s (mouseAt 60 0 1)
       = (ledger (0, 0) (60, 0) True True, [OnSwipe (mouseAt 60 0 1)])"
    by (simp add: prod_eq_iff)
  from g dw dir m allowed(4) dn(1) show ?thesis by simp
qed

text \<open>
  Claim C7. After \<^verbatim>\<open>stop()\<close>, whatever pointer events the target receives, no handler
  runs: the tracker stays as \<^verbatim>\<open>stop()\<close> left it and no callback is called, neither
  \<^verbatim>\<open>onSwipeStart\<close> nor \<^verbatim>\<open>onSwipe\<close> nor \<^verbatim>\<open>onSwipeEnd\<close>. This holds for
  every state at the moment of \<^verbatim>\<open>stop()\<close>, a swipe in progress included: the gesture
  is abandoned, its pointer-up calls nothing.
\<close>

theorem no_callbacks_after_stop:
  "run options (stop inst) evs = (stop inst, [])
   \<and> callbacks (snd (run options (stop inst) evs)) = []"
  by (simp add: run_detached stop_listeners callbacks_def)

theorem no_callbacks_after_stop_witness:
  "isSwiping (cells swipingInstance)
   \<and> snd (run allCallbacks swipingInstance [(pointerup, mouseAt 60 0 0)])
       = [OnSwipeEnd (mouseAt 60 0 0) right]
   \<and> run allCallbacks (stop swipingInstance)
        [(pointermove, mouseAt 90 0 1), (pointerup, mouseAt 90 0 0), (pointerdown, mouseAt 0 0 1)]
       = (stop swipingInstance, [])"
proof -
  have "isSwiping (cells swipingInstance)"
    by (simp add: swipingInstance_eq ledger_def)
  moreover have "snd (run allCallbacks swipingInstance [(pointerup, mouseAt 60 0 0)])
       = [OnSwipeEnd (mouseAt 60 0 0) right]"
    by (simp add: swipingInstance_eq dispatch_def up_accepted allowed_mouse)
       (simp add: geometry_defs input_defs)
  ultimately show ?thesis
    using no_callbacks_after_stop [of allCallbacks swipingInstance
      "[(pointermove, mouseAt 90 0 1), (pointerup, mouseAt 90 0 0), (pointerdown, mouseAt 0 0 1)]"]
    by simp
qed

text \<open>
  Claim C8 says that \<^verbatim>\<open>stop()\<close> returns the tracker's state to its defaults, so that
  \<open>isSwiping\<close> is false right after it. \<^verbatim>\<open>stop\<close> runs the three disposal
  functions of the listeners and assigns to no cell: stopped in the middle of a swipe,
  the tracker still has \<open>isSwiping\<close> true, and its cells differ from the initial ones.
\<close>

theorem stop_resets_counterexample:
  "isSwiping (cells swipingInstance)
   \<and> isSwiping (cells (stop swipingInstance))
   \<and> cells (stop swipingInstance) \<noteq> cells (usePointerSwipe (Some 0) allCallbacks)"
  by (simp add: swipingInstance_eq stop_def forEachStop_def usePointerSwipe_def ledger_def)

text \<open>
  Claim C8, amended. Disposal does not reset the state: \<^verbatim>\<open>stop()\<close> leaves
  \<open>posStart\<close>, \<open>posEnd\<close>, \<open>isSwiping\<close> and \<open>isPointerDown\<close> exactly as they
  were; in particular \<open>isSwiping\<close> right after \<^verbatim>\<open>stop()\<close> is what it was before,
  true if a swipe was in progress. The cells are untouched whatever disposal functions
  \<open>ss\<close> the bridge returned.
\<close>

theorem stop_keeps_cells:
  "cells (forEachStop ss inst) = cells inst
   \<and> cells (stop inst) = cells inst
   \<and> isSwiping (cells (stop inst)) = isSwiping (cells inst)"
  by (simp add: stop_def forEachStop_def)

theorem stop_keeps_cells_witness:
  "cells (stop swipingInstance) = ledger (0, 0) (60, 0) True True
   \<and> isSwiping (cells (stop swipingInstance))"
  using stop_keeps_cells [of stops swipingInstance]
  by (simp add: swipingInstance_eq) (simp add: ledger_def)

text \<open>
  Claim C9. Movement never clears \<open>isSwiping\<close>: a pointer-move on a swiping tracker
  leaves it swiping. A pointer-up on a swiping tracker whose displacement is below the
  threshold calls \<^verbatim>\<open>onSwipeEnd\<close> with direction \<open>none\<close>. So a gesture one of
  whose moves reaches the threshold and whose last move is back below it ends with
  \<^verbatim>\<open>onSwipeEnd(e, 'none')\<close>.
\<close>

theorem swiping_survives_return:
  "(isSwiping s \<longrightarrow> isSwiping (fst (pointermove_handler options s e)))
   \<and> (isSwiping s \<and> eventIsAllowed options u \<and> onSwipeEnd options
        \<and> max \<bar>distanceX s\<bar> \<bar>distanceY s\<bar> < thresholdOf options \<longrightarrow>
      snd (pointerup_handler options s u) = [OnSwipeEnd u none])
   \<and> ({pointerdown, pointermove, pointerup} \<subseteq> listeners inst
        \<and> \<not> isSwiping (cells inst)
        \<and> eventIsAllowed options d \<and> (\<forall>m \<in> set ms. eventIsAllowed options m)
        \<and> eventIsAllowed options u
        \<and> onSwipeStart options \<and> onSwipe options \<and> onSwipeEnd options
        \<and> (\<exists>m \<in> set ms. reaches options (coords d) m)
        \<and> \<not> reaches options (coords d) (last ms) \<longrightarrow>
      callbacks (snd (run options inst (gesture d ms u)))
          = OnSwipeStart d
            # map OnSwipe (dropWhile (\<lambda>m. \<not> reaches options (coords d) m) ms)
            @ [OnSwipeEnd u none])"
proof (intro conjI impI; (elim conjE)?)
  assume "isSwiping s"
  then show "isSwiping (fst (pointermove_handler options s e))"
    by (simp add: pointermove_handler_def Let_def updatePosEnd_def)
next
  assume "isSwiping s" "eventIsAllowed options u" "onSwipeEnd options"
    "max \<bar>distanceX s\<bar> \<bar>distanceY s\<bar> < thresholdOf options"
  then show "snd (pointerup_handler options s u) = [OnSwipeEnd u none]"
    by (simp add: up_accepted direction_def isThresholdExceeded_def)
next
  assume "{pointerdown, pointermove, pointerup} \<subseteq> listeners inst"
    "\<not> isSwiping (cells inst)"
    "eventIsAllowed options d" "\<forall>m \<in> set ms. eventIsAllowed options m"
    "eventIsAllowed options u"
    "onSwipeStart options" "onSwipe options" "onSwipeEnd options"
    "\<exists>m \<in> set ms. reaches options (coords d) m"
    "\<not> reaches options (coords d) (last ms)"
  then show "callbacks (snd (run options inst (gesture d ms u)))
          = OnSwipeStart d
            # map OnSwipe (dropWhile (\<lambda>m. \<not> reaches options (coords d) m) ms)
            @ [OnSwipeEnd u none]"
    by (simp add: run_gesture gesture_effects direction_below)
qed

theorem swiping_survives_return_witness:
  "(\<exists>m \<in> set [mouseAt 20 0 1, mouseAt 60 0 1, mouseAt 10 0 1].
       reaches allCallbacks (coords (mouseAt 0 0 1)) m)
   \<and> \<not> reaches allCallbacks (coords (mouseAt 0 0 1)) (mouseAt 10 0 1)
   \<and> callbacks (snd (run allCallbacks (usePointerSwipe (Some 0) allCallbacks)
        (gesture (mouseAt 0 0 1) [mouseAt 20 0 1, mouseAt 60 0 1, mouseAt 10 0 1]
           (mouseAt 10 0 0))))
       = [OnSwipeStart (mouseAt 0 0 1), OnSwipe (mouseAt 60 0 1), OnSwipe (mouseAt 10 0 1),
          OnSwipeEnd (mouseAt 10 0 0) none]"
proof -
  let ?inst = "usePointerSwipe (Some 0) allCallbacks"
  let ?d = "mouseAt 0 0 1"
  let ?ms = "[mouseAt 20 0 1, mouseAt 60 0 1, mouseAt 10 0 1]"
  let ?u = "mouseAt 10 0 0"
  have att: "{pointerdown, pointermove, pointerup} \<subseteq> listeners ?inst"
    by (simp add: usePointerSwipe_listeners)
  have idle: "\<not> isSwiping (cells ?inst)"
    by (simp add: usePointerSwipe_def)
  have allowed: "eventIsAllowed allCallbacks ?d" "\<forall>m \<in> set ?ms. eventIsAllowed allCallbacks m"
    "eventIsAllowed allCallbacks ?u"
    by (simp_all add: allowed_mouse)
  have cb: "onSwipeStart allCallbacks" "onSwipe allCallbacks" "onSwipeEnd allCallbacks"
    by (simp_all add: allCallbacks_def)
  have ex: "\<exists>m \<in> set ?ms. reaches allCallbacks (coords ?d) m"
    by (simp add: reaches_def coords_def input_defs)
  have ret: "\<not> reaches allCallbacks (coords ?d) (last ?ms)"
    by (simp add: reaches_def coords_def input_defs)
  have dw: "dropWhile (\<lambda>m. \<not> reaches allCallbacks (coords ?d) m) ?ms
              = [mouseAt 60 0 1, mouseAt 10 0 1]"
    by (simp add: reaches_def coords_def input_defs)
  from swiping_survives_return [of _ allCallbacks _ ?u ?inst ?d ?ms] att idle allowed cb ex ret
  have "callbacks (snd (run allCallbacks ?inst (gesture ?d ?ms ?u)))
          = OnSwipeStart ?d
            # map OnSwipe (dropWhile (\<lambda>m. \<not> reaches allCallbacks (coords ?d) m) ?ms)
            @ [OnSwipeEnd ?u none]"
    by blast
  with dw ex ret show ?thesis by simp
qed

end
